theory Spec2Isabelle
  imports Main "HOL-Library.Word"
begin

unbundle bit_operations_syntax

section \<open>The RCON client of \<^verbatim>\<open>rcon.go\<close>\<close>

text \<open>
  A shallow embedding of package \<^verbatim>\<open>rcon\<close>. Go's \<^verbatim>\<open>int32\<close> is a 32-bit word that
  is read through \<open>sint\<close>; a Go \<^verbatim>\<open>string\<close> and a \<^verbatim>\<open>[]byte\<close> are lists of bytes. The
  transport, the random source and the dialler are the environment: they are scripts
  that say what every call on them answers, so that each run of the client against
  some peer is one value of the model. A \<^verbatim>\<open>panic\<close> of the Go runtime is an outcome
  of its own.
\<close>

subsection \<open>Constants and data\<close>

type_synonym byte = "8 word"
type_synonym int32 = "32 word"

definition packetPaddingSize :: int32 where
  "packetPaddingSize = 2"

definition packetHeaderSize :: int32 where
  "packetHeaderSize = 8"

definition terminationSequence :: "byte list" where
  "terminationSequence = [0]"

definition exec :: int32 where
  "exec = 2"

definition auth :: int32 where
  "auth = 3"

definition authResponse :: int32 where
  "authResponse = 2"

definition responseValue :: int32 where
  "responseValue = 0"

text \<open>
  The five errors of the package, and the errors that come from below it: \<open>EOF\<close> and
  \<open>ErrUnexpectedEOF\<close> of package \<^verbatim>\<open>io\<close>, the error of a closed connection, and any other
  transport error, told apart by a number.
\<close>

datatype error =
    ErrInvalidWrite
  | ErrInvalidRead
  | ErrInvalidChallenge
  | ErrUnauthorizedRequest
  | ErrFailedAuthorization
  | EOF
  | ErrUnexpectedEOF
  | ErrClosed
  | ErrNet nat

text \<open>
  The field \<^verbatim>\<open>size\<close> of the Go \<^verbatim>\<open>header\<close> is \<open>size_field\<close> here, since \<open>size\<close>
  is a function of HOL.
\<close>

record header =
  size_field :: int32
  challenge :: int32
  headerType :: int32

record Packet =
  Header :: header
  Body :: "byte list"

subsection \<open>Readers: \<^verbatim>\<open>io.Reader\<close>, \<^verbatim>\<open>io.ReadFull\<close>, \<^verbatim>\<open>binary.Read\<close>\<close>

text \<open>
  A reader is the list of what its successive \<^verbatim>\<open>Read\<close> calls find: some bytes, and
  possibly an error that comes with the last of them. A call with a buffer of \<open>k\<close>
  bytes takes at most \<open>k\<close> bytes of the first entry; what it leaves stays for the
  next call. A reader with nothing left answers \<open>EOF\<close>.
\<close>

type_synonym reader = "(byte list \<times> error option) list"

fun Read :: "nat \<Rightarrow> reader \<Rightarrow> (byte list \<times> error option) \<times> reader" where
  "Read k [] = (([], Some EOF), [])"
| "Read k ((bs, e) # r) =
     (if length bs \<le> k then ((bs, e), r)
      else ((take k bs, None), (drop k bs, e) # r))"

text \<open>
  The loop of \<^verbatim>\<open>io.ReadAtLeast\<close>:
  \<^verbatim>\<open>for n < min && err == nil { nn, err = r.Read(buf[n:]); n += nn }\<close>.
\<close>

function ReadAtLeast_loop ::
  "nat \<Rightarrow> reader \<Rightarrow> byte list \<Rightarrow> error option \<Rightarrow> (byte list \<times> error option) \<times> reader" where
  "ReadAtLeast_loop m r buf err =
     (if length buf < m \<and> err = None
      then (case Read (m - length buf) r of
              ((bs, err'), r') \<Rightarrow> ReadAtLeast_loop m r' (buf @ bs) err')
      else ((buf, err), r))"
  by pat_completeness auto
termination
proof (relation "measure (\<lambda>(m, r, buf, err).
          if err = None then 1 + (m - length buf) + length r else 0)")
  show "wf (measure (\<lambda>(m, r, buf, err).
          if err = None then 1 + (m - length buf) + length r else 0))"
    by simp
next
  fix m :: nat and r :: reader and buf :: "byte list" and err :: "error option"
    and x y bs err' r'
  assume a: "length buf < m \<and> err = None"
    and x: "(x, r') = Read (m - length buf) r"
    and y: "(bs, err') = x"
  show "((m, r', buf @ bs, err'), (m, r, buf, err))
      \<in> measure (\<lambda>(m, r, buf, err).
          if err = None then 1 + (m - length buf) + length r else 0)"
  proof (cases r)
    case Nil
    with a x y show ?thesis by auto
  next
    case (Cons ev r0)
    obtain cs e where ev: "ev = (cs, e)" by (cases ev)
    with a x y Cons show ?thesis
      by (auto split: if_splits)
  qed
qed

text \<open>
  \<^verbatim>\<open>io.ReadFull(r, buf)\<close> with a buffer of \<open>m\<close> bytes: the error is dropped when the
  buffer was filled, and an \<open>EOF\<close> after some bytes becomes \<open>ErrUnexpectedEOF\<close>.
\<close>

definition ReadFull :: "nat \<Rightarrow> reader \<Rightarrow> (byte list \<times> error option) \<times> reader" where
  "ReadFull m r =
     (case ReadAtLeast_loop m r [] None of
        ((buf, err), r') \<Rightarrow>
          if m \<le> length buf then ((buf, None), r')
          else if 0 < length buf \<and> err = Some EOF then ((buf, Some ErrUnexpectedEOF), r')
          else ((buf, err), r'))"

text \<open>\<^verbatim>\<open>binary.LittleEndian\<close>: four bytes, the least significant first.\<close>

definition PutUint32 :: "int32 \<Rightarrow> byte list" where
  "PutUint32 v = [ucast v, ucast (drop_bit 8 v), ucast (drop_bit 16 v), ucast (drop_bit 24 v)]"

fun Uint32 :: "byte list \<Rightarrow> int32" where
  "Uint32 (b0 # b1 # b2 # b3 # _) =
     ucast b0 OR push_bit 8 (ucast b1) OR push_bit 16 (ucast b2) OR push_bit 24 (ucast b3)"
| "Uint32 _ = 0"

text \<open>
  \<^verbatim>\<open>binary.Read(r, binary.LittleEndian, &v)\<close> for an \<^verbatim>\<open>int32\<close>: it fills four bytes
  with \<^verbatim>\<open>io.ReadFull\<close>, returns its error and leaves \<open>v\<close> alone when that fails, and
  stores the decoded value otherwise.
\<close>

definition binary_Read :: "reader \<Rightarrow> (error + int32) \<times> reader" where
  "binary_Read r =
     (case ReadFull 4 r of
        ((bs, Some e), r') \<Rightarrow> (Inl e, r')
      | ((bs, None), r') \<Rightarrow> (Inr (Uint32 bs), r'))"

text \<open>
  \<^verbatim>\<open>strings.TrimRight(s, cutset)\<close> for a cutset of ASCII bytes: the trailing bytes of
  \<open>s\<close> that are in the cutset are removed.
\<close>

definition TrimRight :: "byte list \<Rightarrow> byte list \<Rightarrow> byte list" where
  "TrimRight s cutset = rev (dropWhile (\<lambda>b. b \<in> set cutset) (rev s))"

subsection \<open>The transport: \<^verbatim>\<open>net.Conn\<close>\<close>

text \<open>
  The connection that \<^verbatim>\<open>net.Dial("tcp", ...)\<close> returns. \<open>inbound\<close> is what the peer
  delivers, as a reader. \<open>wscript\<close> says what the successive \<^verbatim>\<open>Write\<close> calls answer:
  how many bytes the transport takes at most, and the error; when it is used up, a
  write takes everything. \<open>outbound\<close> keeps the bytes each \<^verbatim>\<open>Write\<close> call passed on,
  the last call last. \<open>closes\<close> counts the \<^verbatim>\<open>Close\<close> calls.
\<close>

record conn =
  inbound :: reader
  wscript :: "(nat \<times> error option) list"
  outbound :: "byte list list"
  closes :: nat

text \<open>
  \<^verbatim>\<open>Read\<close> on the connection with a buffer of \<open>k\<close> bytes. A closed connection
  answers an error; a TCP connection answers \<^verbatim>\<open>0, nil\<close> to an empty buffer without
  looking at the stream.
\<close>

definition conn_Read :: "nat \<Rightarrow> conn \<Rightarrow> (byte list \<times> error option) \<times> conn" where
  "conn_Read k c =
     (if 0 < closes c then (([], Some ErrClosed), c)
      else if k = 0 then (([], None), c)
      else (case Read k (inbound c) of (res, r') \<Rightarrow> (res, c\<lparr>inbound := r'\<rparr>)))"

text \<open>
  \<^verbatim>\<open>binary.Read\<close> of an \<^verbatim>\<open>int32\<close> from the connection. \<^verbatim>\<open>io.ReadFull\<close> only
  makes \<^verbatim>\<open>Read\<close> calls with a buffer that is not empty, and nothing closes the
  connection between them: on an open connection it is \<open>binary_Read\<close> on \<open>inbound\<close>,
  on a closed one the first \<^verbatim>\<open>Read\<close> fails.
\<close>

definition conn_binary_Read :: "conn \<Rightarrow> (error + int32) \<times> conn" where
  "conn_binary_Read c =
     (if 0 < closes c then (Inl ErrClosed, c)
      else (case binary_Read (inbound c) of (res, r') \<Rightarrow> (res, c\<lparr>inbound := r'\<rparr>)))"

text \<open>\<^verbatim>\<open>Write\<close> on the connection: the number of bytes written, and the error.\<close>

definition conn_Write :: "byte list \<Rightarrow> conn \<Rightarrow> (nat \<times> error option) \<times> conn" where
  "conn_Write p c =
     (if 0 < closes c then ((0, Some ErrClosed), c)
      else (case wscript c of
              [] \<Rightarrow> ((length p, None), c\<lparr>outbound := outbound c @ [p]\<rparr>)
            | (cap, e) # ws \<Rightarrow>
                ((min cap (length p), e),
                 c\<lparr>wscript := ws, outbound := outbound c @ [take cap p]\<rparr>)))"

subsection \<open>The client\<close>

record Client =
  Host :: string
  Port :: int
  authorized :: bool
  connection :: "conn option"

text \<open>
  The state a call runs in: the client and the process-wide \<^verbatim>\<open>rand.Reader\<close>.
\<close>

record world =
  rand_Reader :: reader
  client :: Client

text \<open>
  What a call does: it returns its two results, the response (\<open>None\<close> is \<^verbatim>\<open>nil\<close>)
  and the error (\<open>None\<close> is \<^verbatim>\<open>nil\<close>), or the Go runtime panics.
\<close>

datatype result = Return "Packet option" "error option" | Panic

definition NewClient :: "string \<Rightarrow> int \<Rightarrow> Client \<times> error option" where
  "NewClient host port =
     (\<lparr>Host = host, Port = port, authorized = False, connection = None\<rparr>, None)"

text \<open>
  \<^verbatim>\<open>Connect\<close> stores both results of \<^verbatim>\<open>net.Dial\<close>, which are the argument \<open>dial\<close>:
  an error (and a \<^verbatim>\<open>nil\<close> connection) or a connection.
\<close>

definition Connect :: "error + conn \<Rightarrow> Client \<Rightarrow> Client \<times> error option" where
  "Connect dial this =
     (case dial of
        Inl e \<Rightarrow> (this\<lparr>connection := None\<rparr>, Some e)
      | Inr c \<Rightarrow> (this\<lparr>connection := Some c\<rparr>, None))"

definition newPacket :: "int32 \<Rightarrow> int32 \<Rightarrow> byte list \<Rightarrow> Packet" where
  "newPacket chal typ body =
     \<lparr>Header = \<lparr>size_field = word_of_int (int (length body) + sint (packetHeaderSize + packetPaddingSize)),
                challenge = chal, headerType = typ\<rparr>,
      Body = body\<rparr>"

text \<open>
  \<^verbatim>\<open>compile\<close> writes into a \<^verbatim>\<open>bytes.Buffer\<close>, where \<^verbatim>\<open>binary.Write\<close> of an
  \<^verbatim>\<open>int32\<close> does not fail: the error it returns is always \<^verbatim>\<open>nil\<close>.
\<close>

definition compile :: "Packet \<Rightarrow> byte list \<times> error option" where
  "compile this =
     (PutUint32 (size_field (Header this)) @ PutUint32 (challenge (Header this))
        @ PutUint32 (headerType (Header this)) @ Body this
        @ replicate (nat (sint packetPaddingSize)) 0,
      None)"

text \<open>
  Lines 115 and 116 of \<^verbatim>\<open>send\<close>: \<^verbatim>\<open>var challenge int32\<close>, then a \<^verbatim>\<open>binary.Read\<close>
  from \<^verbatim>\<open>rand.Reader\<close> whose result is dropped.
\<close>

definition newChallenge :: "reader \<Rightarrow> int32 \<times> reader" where
  "newChallenge rnd =
     (case binary_Read rnd of
        (Inl e, rnd') \<Rightarrow> (0, rnd')
      | (Inr v, rnd') \<Rightarrow> (v, rnd'))"

text \<open>
  Lines 136 to 142 (and again 149 to 155): the three fields of a header, each with its
  own \<^verbatim>\<open>binary.Read\<close>; the first error ends the call.
\<close>

definition readHeader :: "conn \<Rightarrow> (error + header) \<times> conn" where
  "readHeader c =
     (case conn_binary_Read c of
        (Inl e, c1) \<Rightarrow> (Inl e, c1)
      | (Inr sz, c1) \<Rightarrow>
          (case conn_binary_Read c1 of
             (Inl e, c2) \<Rightarrow> (Inl e, c2)
           | (Inr ch, c2) \<Rightarrow>
               (case conn_binary_Read c2 of
                  (Inl e, c3) \<Rightarrow> (Inl e, c3)
                | (Inr ty, c3) \<Rightarrow>
                    (Inr \<lparr>size_field = sz, challenge = ch, headerType = ty\<rparr>, c3))))"

text \<open>
  \<^verbatim>\<open>header.size - packetHeaderSize\<close> is computed on \<^verbatim>\<open>int32\<close> and wraps around;
  \<^verbatim>\<open>make([]byte, n)\<close> panics when \<open>n\<close> is negative.
\<close>

definition bodyLen :: "header \<Rightarrow> int" where
  "bodyLen hdr = sint (size_field hdr - packetHeaderSize)"

text \<open>
  Lines 134 to 156: the header that is checked. It is the first one, unless the
  request is an \<^verbatim>\<open>auth\<close> and the first header has the type \<^verbatim>\<open>responseValue\<close>: then
  one \<^verbatim>\<open>Read\<close> into a buffer of \<open>size - 8\<close> bytes is made, both of its results are
  dropped, and a header is read again. \<open>Inl\<close> is a return or a panic before any header
  is checked.
\<close>

definition awaitHeader :: "Packet \<Rightarrow> conn \<Rightarrow> (result + header) \<times> conn" where
  "awaitHeader packet c =
     (case readHeader c of
        (Inl e, c1) \<Rightarrow> (Inl (Return None (Some e)), c1)
      | (Inr hdr, c1) \<Rightarrow>
          if headerType (Header packet) = auth \<and> headerType hdr = responseValue
          then (if bodyLen hdr < 0 then (Inl Panic, c1)
                else (case conn_Read (nat (bodyLen hdr)) c1 of
                        (discarded, c2) \<Rightarrow>
                          (case readHeader c2 of
                             (Inl e, c3) \<Rightarrow> (Inl (Return None (Some e)), c3)
                           | (Inr hdr2, c3) \<Rightarrow> (Inr hdr2, c3))))
          else (Inr hdr, c1))"

text \<open>
  Lines 158 to 178: the challenge is compared, then the body is read with one
  \<^verbatim>\<open>Read\<close> and its trailing NUL bytes are trimmed.
\<close>

definition readBody :: "Packet \<Rightarrow> header \<Rightarrow> conn \<Rightarrow> result \<times> conn" where
  "readBody packet hdr c =
     (if challenge hdr \<noteq> challenge (Header packet)
      then (Return None (Some ErrInvalidChallenge), c)
      else if bodyLen hdr < 0 then (Panic, c)
      else (case conn_Read (nat (bodyLen hdr)) c of
              ((bs, err), c') \<Rightarrow>
                if err \<noteq> None then (Return None err, c')
                else if length bs \<noteq> nat (bodyLen hdr)
                then (Return None (Some ErrInvalidRead), c')
                else (Return (Some \<lparr>Header = hdr, Body = TrimRight bs terminationSequence\<rparr>)
                        None, c')))"

text \<open>Lines 134 to 178: everything \<^verbatim>\<open>send\<close> does after the request is written.\<close>

definition receive :: "Packet \<Rightarrow> conn \<Rightarrow> result \<times> conn" where
  "receive packet c =
     (case awaitHeader packet c of
        (Inl res, c') \<Rightarrow> (res, c')
      | (Inr hdr, c') \<Rightarrow> readBody packet hdr c')"

definition set_connection :: "world \<Rightarrow> conn \<Rightarrow> world" where
  "set_connection w c = w\<lparr>client := (client w)\<lparr>connection := Some c\<rparr>\<rparr>"

text \<open>
  Lines 120 to 178 of \<^verbatim>\<open>send\<close>: the packet is compiled and written, and the
  response is received. A client whose connection is \<^verbatim>\<open>nil\<close> panics at the
  \<^verbatim>\<open>Write\<close>.
\<close>

definition exchange :: "Packet \<Rightarrow> world \<Rightarrow> result \<times> world" where
  "exchange packet w =
     (case compile packet of
        (payload, err) \<Rightarrow>
          if err \<noteq> None then (Return None err, w)
          else (case connection (client w) of
                  None \<Rightarrow> (Panic, w)
                | Some c \<Rightarrow>
                    (case conn_Write payload c of
                       ((n, err), c1) \<Rightarrow>
                         if err \<noteq> None then (Return None err, set_connection w c1)
                         else if n \<noteq> length payload
                         then (Return None (Some ErrInvalidWrite), set_connection w c1)
                         else (case receive packet c1 of
                                 (res, c2) \<Rightarrow> (res, set_connection w c2)))))"

definition send :: "int32 \<Rightarrow> byte list \<Rightarrow> world \<Rightarrow> result \<times> world" where
  "send typ command w =
     (if typ \<noteq> auth \<and> \<not> authorized (client w)
      then (Return None (Some ErrUnauthorizedRequest), w)
      else (case newChallenge (rand_Reader w) of
              (chal, rnd') \<Rightarrow>
                exchange (newPacket chal typ command) (w\<lparr>rand_Reader := rnd'\<rparr>)))"

text \<open>
  \<^verbatim>\<open>Authorize\<close>. Reading \<^verbatim>\<open>response.Header\<close> of a \<^verbatim>\<open>nil\<close> response would panic.
\<close>

definition Authorize :: "byte list \<Rightarrow> world \<Rightarrow> result \<times> world" where
  "Authorize password w =
     (case send auth password w of
        (Panic, w') \<Rightarrow> (Panic, w')
      | (Return response err, w') \<Rightarrow>
          if err = None
          then (case response of
                  None \<Rightarrow> (Panic, w')
                | Some p \<Rightarrow>
                    if headerType (Header p) = authResponse
                    then (Return response err, w'\<lparr>client := (client w')\<lparr>authorized := True\<rparr>\<rparr>)
                    else (Return None (Some ErrFailedAuthorization), w'))
          else (Return response err, w'))"

definition Execute :: "byte list \<Rightarrow> world \<Rightarrow> result \<times> world" where
  "Execute command w = send exec command w"

subsection \<open>Callers and \<^verbatim>\<open>Disconnect\<close>\<close>

text \<open>
  Modelled from the spec: \<^verbatim>\<open>Disconnect\<close> is called by the tests of the package but
  is missing from \<^verbatim>\<open>rcon.go\<close>. The specification says of it that it releases the
  transport: here it closes the connection the client holds, once, and does nothing
  on a client that has none.
\<close>

definition Disconnect :: "Client \<Rightarrow> Client" where
  "Disconnect this =
     (case connection this of
        None \<Rightarrow> this
      | Some c \<Rightarrow> this\<lparr>connection := Some (c\<lparr>closes := Suc (closes c)\<rparr>)\<rparr>)"

text \<open>
  What a caller does between \<^verbatim>\<open>Connect\<close> and the deferred \<^verbatim>\<open>Disconnect\<close>, as the
  tests do: a sequence of \<^verbatim>\<open>Authorize\<close> and \<^verbatim>\<open>Execute\<close> calls that goes on after
  an error and that a panic ends.
\<close>

datatype call = Call_Authorize "byte list" | Call_Execute "byte list"

fun call_step :: "call \<Rightarrow> world \<Rightarrow> result \<times> world" where
  "call_step (Call_Authorize password) w = Authorize password w"
| "call_step (Call_Execute command) w = Execute command w"

fun run :: "call list \<Rightarrow> world \<Rightarrow> world" where
  "run [] w = w"
| "run (x # xs) w =
     (case call_step x w of
        (Panic, w') \<Rightarrow> w'
      | (Return response err, w') \<Rightarrow> run xs w')"

subsection \<open>Reading a result and a state\<close>

text \<open>The bytes the client's connection has been given to write, call by call.\<close>

definition sent :: "world \<Rightarrow> byte list list" where
  "sent w = (case connection (client w) of None \<Rightarrow> [] | Some c \<Rightarrow> outbound c)"

text \<open>How often the client's connection has been closed.\<close>

definition close_count :: "Client \<Rightarrow> nat option" where
  "close_count this = map_option closes (connection this)"


definition response_Body :: "result \<Rightarrow> byte list option" where
  "response_Body res = (case res of Return (Some p) err \<Rightarrow> Some (Body p) | _ \<Rightarrow> None)"

definition response_size :: "result \<Rightarrow> int option" where
  "response_size res =
     (case res of Return (Some p) err \<Rightarrow> Some (sint (size_field (Header p))) | _ \<Rightarrow> None)"

text \<open>
  What a call that only reads may change of a connection: nothing but \<open>inbound\<close>.
\<close>

definition reads_only :: "conn \<Rightarrow> conn \<Rightarrow> bool" where
  "reads_only c c' \<longleftrightarrow>
     wscript c' = wscript c \<and> outbound c' = outbound c \<and> closes c' = closes c"

subsection \<open>The wire format in the words of the specification\<close>

text \<open>
  A 32-bit field in little-endian order is four bytes; byte \<open>i\<close> holds the digit
  of weight \<open>256 ^ i\<close> of the field's bit pattern.
\<close>

definition little_endian32 :: "int32 \<Rightarrow> byte list" where
  "little_endian32 v = map (\<lambda>i. of_nat (unat v div 256 ^ i mod 256)) [0..<4]"

section \<open>Properties\<close>

subsection \<open>Byte order\<close>

lemma Uint32_PutUint32: "Uint32 (PutUint32 v) = v"
  unfolding PutUint32_def
  apply simp
  apply (rule bit_word_eqI)
  apply (auto simp: bit_simps)
  subgoal for n by (cases "n < 24") simp_all
  done

lemma length_PutUint32: "length (PutUint32 v) = 4"
  by (simp add: PutUint32_def)

lemma ucast_byte_drop:
  "(ucast (drop_bit k (v::int32)) :: byte) = of_nat (unat v div 2 ^ k mod 256)"
proof -
  have d: "unat (drop_bit k v) = unat v div 2 ^ k"
    unfolding unat_drop_bit_eq by (rule drop_bit_eq_div)
  have "(ucast (drop_bit k v) :: byte) = of_nat (unat (drop_bit k v))"
    by simp
  also have "\<dots> = of_nat (unat v div 2 ^ k)"
    by (simp only: d)
  also have "\<dots> = (of_nat (unat v div 2 ^ k mod 256) :: byte)"
    by (simp add: word_of_nat_eq_iff take_bit_eq_mod)
  finally show ?thesis .
qed

lemma PutUint32_little_endian: "PutUint32 v = little_endian32 v"
  using ucast_byte_drop[of 0 v] ucast_byte_drop[of 8 v]
    ucast_byte_drop[of 16 v] ucast_byte_drop[of 24 v]
  by (simp add: PutUint32_def little_endian32_def upt_rec)

subsection \<open>Reading from a script\<close>

lemma loop_done: "ReadAtLeast_loop m r buf (Some e) = ((buf, Some e), r)"
  by (subst ReadAtLeast_loop.simps) simp

lemma loop_full: "m \<le> length buf \<Longrightarrow> ReadAtLeast_loop m r buf err = ((buf, err), r)"
  by (subst ReadAtLeast_loop.simps) simp

lemma ReadFull_Nil: "0 < m \<Longrightarrow> ReadFull m [] = (([], Some EOF), [])"
  unfolding ReadFull_def
  by (subst ReadAtLeast_loop.simps) (simp add: loop_done)

lemma ReadFull_more:
  "0 < m \<Longrightarrow> m < length bs \<Longrightarrow>
   ReadFull m ((bs, e) # r) = ((take m bs, None), (drop m bs, e) # r)"
  unfolding ReadFull_def
  by (subst ReadAtLeast_loop.simps) (simp add: loop_full)

lemma ReadFull_exact:
  "0 < m \<Longrightarrow> length bs = m \<Longrightarrow> ReadFull m ((bs, e) # r) = ((bs, None), r)"
  unfolding ReadFull_def
  by (subst ReadAtLeast_loop.simps) (simp add: loop_full loop_done)

lemma binary_Read_Nil: "binary_Read [] = (Inl EOF, [])"
  by (simp add: binary_Read_def ReadFull_Nil)

lemma binary_Read_PutUint32:
  "rest \<noteq> [] \<Longrightarrow> binary_Read ((PutUint32 v @ rest, e) # r) = (Inr v, (rest, e) # r)"
  by (simp add: binary_Read_def ReadFull_more length_PutUint32 Uint32_PutUint32)

lemma binary_Read_PutUint32_exact: "binary_Read ((PutUint32 v, e) # r) = (Inr v, r)"
  by (simp add: binary_Read_def ReadFull_exact length_PutUint32 Uint32_PutUint32)

lemma conn_binary_Read_PutUint32:
  "closes c = 0 \<Longrightarrow> inbound c = (PutUint32 v @ rest, e) # r \<Longrightarrow> rest \<noteq> [] \<Longrightarrow>
   conn_binary_Read c = (Inr v, c\<lparr>inbound := (rest, e) # r\<rparr>)"
  by (simp add: conn_binary_Read_def binary_Read_PutUint32)

subsection \<open>A compiled packet that comes back\<close>

lemma readHeader_compile:
  assumes "closes c = 0" and "inbound c = (fst (compile p), None) # r"
  shows "readHeader c = (Inr (Header p), c\<lparr>inbound := (Body p @ [0, 0], None) # r\<rparr>)"
proof -
  let ?t = "Body p @ [0, 0]"
  let ?c1 = "c\<lparr>inbound := (PutUint32 (challenge (Header p))
      @ PutUint32 (headerType (Header p)) @ ?t, None) # r\<rparr>"
  let ?c2 = "c\<lparr>inbound := (PutUint32 (headerType (Header p)) @ ?t, None) # r\<rparr>"
  have 1: "conn_binary_Read c = (Inr (size_field (Header p)), ?c1)"
    using assms
    by (intro conn_binary_Read_PutUint32)
       (simp_all add: compile_def packetPaddingSize_def numeral_2_eq_2 PutUint32_def)
  have 2: "conn_binary_Read ?c1 = (Inr (challenge (Header p)), ?c2)"
    using assms(1) conn_binary_Read_PutUint32[of ?c1 "challenge (Header p)"
        "PutUint32 (headerType (Header p)) @ ?t" None r]
    by (simp add: PutUint32_def)
  have 3: "conn_binary_Read ?c2 = (Inr (headerType (Header p)), c\<lparr>inbound := (?t, None) # r\<rparr>)"
    using assms(1) conn_binary_Read_PutUint32[of ?c2 "headerType (Header p)" ?t None r]
    by simp
  show ?thesis
    by (simp add: readHeader_def 1 2 3)
qed

lemma TrimRight_padding:
  assumes "B = [] \<or> last B \<noteq> 0"
  shows "TrimRight (B @ [0, 0]) terminationSequence = B"
proof (cases "B = []")
  case True
  then show ?thesis by (simp add: TrimRight_def terminationSequence_def)
next
  case False
  with assms have "hd (rev B) \<noteq> 0" by (simp add: hd_rev)
  moreover from False have "rev B \<noteq> []" by simp
  ultimately have "dropWhile (\<lambda>b. b = 0) (rev B) = rev B"
    by (cases "rev B") simp_all
  then show ?thesis by (simp add: TrimRight_def terminationSequence_def)
qed

lemma receive_loopback:
  assumes "closes c = 0" and "inbound c = (fst (compile p), None) # r"
    and "bodyLen (Header p) = int (length (Body p)) + 2"
  shows "receive p c =
    (Return (Some \<lparr>Header = Header p,
                    Body = TrimRight (Body p @ [0, 0]) terminationSequence\<rparr>) None,
     c\<lparr>inbound := r\<rparr>)"
proof -
  let ?c1 = "c\<lparr>inbound := (Body p @ [0, 0], None) # r\<rparr>"
  have h: "awaitHeader p c = (Inr (Header p), ?c1)"
    using readHeader_compile[OF assms(1,2)]
    by (auto simp: awaitHeader_def auth_def responseValue_def)
  have n: "nat (bodyLen (Header p)) = length (Body p) + 2"
    using assms(3) by simp
  have b: "conn_Read (length (Body p) + 2) ?c1 = ((Body p @ [0, 0], None), c\<lparr>inbound := r\<rparr>)"
    using assms(1) by (simp add: conn_Read_def)
  have "readBody p (Header p) ?c1 =
    (Return (Some \<lparr>Header = Header p,
                    Body = TrimRight (Body p @ [0, 0]) terminationSequence\<rparr>) None,
     c\<lparr>inbound := r\<rparr>)"
    unfolding readBody_def n b using assms(3) by simp
  then show ?thesis
    by (simp add: receive_def h)
qed

lemma sint_word_of_int32:
  "- (2 ^ 31) \<le> k \<Longrightarrow> k < 2 ^ 31 \<Longrightarrow> sint (word_of_int k :: int32) = k"
  by (simp add: sint_sbintrunc' signed_take_bit_int_eq_self)

lemma newPacket_size_field:
  "size_field (Header (newPacket chal typ B)) = word_of_int (int (length B) + 10)"
  by (simp add: newPacket_def packetHeaderSize_def packetPaddingSize_def)

lemma newPacket_size:
  assumes "length B + 10 < 2 ^ 31"
  shows "sint (size_field (Header (newPacket chal typ B))) = int (length B) + 10"
proof -
  have "sint (word_of_int (int (length B) + 10) :: int32) = int (length B) + 10"
    by (rule sint_word_of_int32) (use assms in auto)
  then show ?thesis
    by (simp only: newPacket_size_field)
qed

lemma newPacket_bodyLen:
  assumes "length B + 10 < 2 ^ 31"
  shows "bodyLen (Header (newPacket chal typ B)) = int (length B) + 2"
proof -
  have "(word_of_int (int (length B) + 10) - 8 :: int32) = word_of_int (int (length B) + 2)"
    by simp
  moreover have "sint (word_of_int (int (length B) + 2) :: int32) = int (length B) + 2"
    by (rule sint_word_of_int32) (use assms in auto)
  ultimately show ?thesis
    by (simp only: bodyLen_def newPacket_size_field packetHeaderSize_def)
qed

subsection \<open>What the calls leave alone\<close>

lemma reads_only_refl: "reads_only c c"
  by (simp add: reads_only_def)

lemma reads_only_trans: "reads_only a b \<Longrightarrow> reads_only b c \<Longrightarrow> reads_only a c"
  by (simp add: reads_only_def)

lemma conn_Read_frame: "reads_only c (snd (conn_Read k c))"
  by (simp add: conn_Read_def reads_only_def split: prod.splits)

lemma conn_binary_Read_frame: "reads_only c (snd (conn_binary_Read c))"
  by (simp add: conn_binary_Read_def reads_only_def split: prod.splits)

lemma readHeader_frame: "reads_only c (snd (readHeader c))"
proof -
  have a: "\<And>c x c'. conn_binary_Read c = (x, c') \<Longrightarrow> reads_only c c'"
    using conn_binary_Read_frame by (metis snd_conv)
  show ?thesis
    unfolding readHeader_def
    by (auto split: prod.splits sum.splits dest!: a intro: reads_only_trans)
qed

lemma awaitHeader_frame: "reads_only c (snd (awaitHeader p c))"
proof -
  have a: "\<And>c x c'. readHeader c = (x, c') \<Longrightarrow> reads_only c c'"
    using readHeader_frame by (metis snd_conv)
  have b: "\<And>c k x c'. conn_Read k c = (x, c') \<Longrightarrow> reads_only c c'"
    using conn_Read_frame by (metis snd_conv)
  show ?thesis
    unfolding awaitHeader_def
    by (auto split: prod.splits sum.splits dest!: a b intro: reads_only_trans)
qed

lemma readBody_frame: "reads_only c (snd (readBody p hdr c))"
proof -
  have b: "\<And>c k x c'. conn_Read k c = (x, c') \<Longrightarrow> reads_only c c'"
    using conn_Read_frame by (metis snd_conv)
  show ?thesis
    unfolding readBody_def
    by (auto split: prod.splits dest!: b simp: reads_only_refl)
qed

lemma receive_frame: "reads_only c (snd (receive p c))"
proof -
  have a: "\<And>c x c'. awaitHeader p c = (x, c') \<Longrightarrow> reads_only c c'"
    using awaitHeader_frame by (metis snd_conv)
  show ?thesis
    unfolding receive_def
    using readBody_frame
    by (auto split: prod.splits sum.splits dest!: a intro: reads_only_trans)
qed

lemma conn_Write_closes: "closes (snd (conn_Write p c)) = closes c"
  by (simp add: conn_Write_def split: list.splits prod.splits)

lemma exchange_close_count:
  "close_count (client (snd (exchange p w))) = close_count (client w)"
proof (cases "connection (client w)")
  case None
  then show ?thesis by (simp add: exchange_def compile_def)
next
  case (Some c)
  have r: "\<And>c1 res c2. receive p c1 = (res, c2) \<Longrightarrow> closes c2 = closes c1"
    using receive_frame by (metis reads_only_def snd_conv)
  have w: "\<And>pl x c1. conn_Write pl c = (x, c1) \<Longrightarrow> closes c1 = closes c"
    using conn_Write_closes by (metis snd_conv)
  show ?thesis
    using Some
    by (auto simp: exchange_def compile_def close_count_def set_connection_def
        split: prod.splits dest!: r w)
qed

lemma exchange_authorized:
  "authorized (client (snd (exchange p w))) = authorized (client w)"
  by (auto simp: exchange_def compile_def set_connection_def split: prod.splits option.splits)

lemma send_close_count:
  "close_count (client (snd (send typ command w))) = close_count (client w)"
  by (simp add: send_def exchange_close_count split: prod.splits)

lemma send_authorized:
  "authorized (client (snd (send typ command w))) = authorized (client w)"
  by (simp add: send_def exchange_authorized split: prod.splits)

lemma Authorize_close_count:
  "close_count (client (snd (Authorize password w))) = close_count (client w)"
proof -
  have "close_count (client w') = close_count (client w)"
    if "send auth password w = (res, w')" for res w'
    using send_close_count[of auth password w] that by simp
  then show ?thesis
    by (auto simp: Authorize_def close_count_def split: prod.splits result.splits option.splits)
qed

lemma call_step_close_count:
  "close_count (client (snd (call_step x w))) = close_count (client w)"
  by (cases x) (simp_all add: Authorize_close_count Execute_def send_close_count)

lemma run_close_count: "close_count (client (run xs w)) = close_count (client w)"
proof (induction xs arbitrary: w)
  case Nil
  then show ?case by simp
next
  case (Cons x xs)
  show ?case
    using call_step_close_count[of x w] Cons.IH
    by (auto split: prod.splits result.splits)
qed

lemma send_unauthorized:
  "typ \<noteq> auth \<Longrightarrow> \<not> authorized (client w) \<Longrightarrow>
   send typ command w = (Return None (Some ErrUnauthorizedRequest), w)"
  by (simp add: send_def)

lemma compile_eq:
  "compile p = (PutUint32 (size_field (Header p)) @ PutUint32 (challenge (Header p))
                  @ PutUint32 (headerType (Header p)) @ Body p @ [0, 0], None)"
  by (simp add: compile_def packetPaddingSize_def numeral_2_eq_2)

text \<open>The equations that run the client on a given input.\<close>

lemmas run_defs =
  send_def exchange_def receive_def awaitHeader_def readBody_def readHeader_def
  conn_binary_Read_def conn_Read_def conn_Write_def binary_Read_def newChallenge_def
  compile_eq newPacket_def set_connection_def bodyLen_def PutUint32_def TrimRight_def
  ReadFull_more ReadFull_exact ReadFull_Nil
  auth_def exec_def authResponse_def responseValue_def
  packetHeaderSize_def packetPaddingSize_def terminationSequence_def

subsection \<open>The steps of \<^verbatim>\<open>send\<close>\<close>

text \<open>Once the request has been written in full, \<^verbatim>\<open>send\<close> is the receive path.\<close>

lemma send_after_write:
  assumes "typ = auth \<or> authorized (client w)"
    and "newChallenge (rand_Reader w) = (chal, rnd')"
    and "connection (client w) = Some c"
    and "conn_Write (fst (compile (newPacket chal typ command))) c
           = ((length (fst (compile (newPacket chal typ command))), None), c1)"
  shows "send typ command w =
     (case receive (newPacket chal typ command) c1 of
        (res, c2) \<Rightarrow> (res, set_connection (w\<lparr>rand_Reader := rnd'\<rparr>) c2))"
proof -
  obtain payload where p: "compile (newPacket chal typ command) = (payload, None)"
    by (simp add: compile_def)
  from assms(4) have "conn_Write payload c = ((length payload, None), c1)"
    by (simp add: p)
  then show ?thesis
    using assms(1,2,3) by (auto simp: send_def exchange_def p)
qed

text \<open>
  The results of a call that returns: an error and no response, or a response whose id
  is the challenge of the request and no error.
\<close>

lemma readBody_results:
  "fst (readBody p hdr c) = Panic
   \<or> (\<exists>e. fst (readBody p hdr c) = Return None (Some e))
   \<or> (\<exists>q. fst (readBody p hdr c) = Return (Some q) None
          \<and> challenge (Header q) = challenge (Header p))"
  by (auto simp: readBody_def split: prod.splits)

lemma receive_results:
  "fst (receive p c) = Panic
   \<or> (\<exists>e. fst (receive p c) = Return None (Some e))
   \<or> (\<exists>q. fst (receive p c) = Return (Some q) None
          \<and> challenge (Header q) = challenge (Header p))"
proof (cases "awaitHeader p c")
  case (Pair x c')
  show ?thesis
  proof (cases x)
    case (Inl res)
    then have "res = Panic \<or> (\<exists>e. res = Return None (Some e))"
      using Pair by (auto simp: awaitHeader_def split: prod.splits sum.splits if_splits)
    with Inl Pair show ?thesis by (auto simp: receive_def)
  next
    case (Inr hdr)
    with Pair readBody_results[of p hdr c'] show ?thesis by (simp add: receive_def)
  qed
qed

lemma send_results:
  "fst (send typ command w) = Panic
   \<or> (\<exists>e. fst (send typ command w) = Return None (Some e))
   \<or> (\<exists>q. fst (send typ command w) = Return (Some q) None
          \<and> challenge (Header q) = fst (newChallenge (rand_Reader w)))"
proof (cases "typ \<noteq> auth \<and> \<not> authorized (client w)")
  case True
  then show ?thesis by (simp add: send_def)
next
  case False
  obtain chal rnd' where n: "newChallenge (rand_Reader w) = (chal, rnd')"
    by (cases "newChallenge (rand_Reader w)")
  let ?p = "newPacket chal typ command"
  have r: "\<And>c. fst (receive ?p c) = Panic
   \<or> (\<exists>e. fst (receive ?p c) = Return None (Some e))
   \<or> (\<exists>q. fst (receive ?p c) = Return (Some q) None \<and> challenge (Header q) = chal)"
    using receive_results[of ?p] by (simp add: newPacket_def)
  show ?thesis
  proof (cases "connection (client w)")
    case None
    with False n show ?thesis by (simp add: send_def exchange_def compile_def)
  next
    case (Some c)
    obtain k err c1 where w: "conn_Write (fst (compile ?p)) c = ((k, err), c1)"
      by (metis surj_pair)
    obtain res c2 where rc: "receive ?p c1 = (res, c2)"
      by (cases "receive ?p c1")
    from r[of c1] rc have "res = Panic \<or> (\<exists>e. res = Return None (Some e))
       \<or> (\<exists>q. res = Return (Some q) None \<and> challenge (Header q) = chal)"
      by simp
    with False n Some w rc show ?thesis
      by (auto simp: send_def exchange_def compile_def)
  qed
qed

lemma Authorize_results:
  "fst (Authorize password w) = Panic
   \<or> (\<exists>e. fst (Authorize password w) = Return None (Some e))
   \<or> (\<exists>q. fst (Authorize password w) = Return (Some q) None
          \<and> challenge (Header q) = fst (newChallenge (rand_Reader w))
          \<and> headerType (Header q) = authResponse)"
proof -
  obtain res w' where s: "send auth password w = (res, w')"
    by (cases "send auth password w")
  from send_results[of auth password w] s
  consider "res = Panic"
    | e where "res = Return None (Some e)"
    | q where "res = Return (Some q) None"
        "challenge (Header q) = fst (newChallenge (rand_Reader w))"
    by auto
  then show ?thesis
  proof cases
    case 1
    then show ?thesis by (simp add: Authorize_def s)
  next
    case 2
    then show ?thesis by (simp add: Authorize_def s)
  next
    case 3
    then show ?thesis by (simp add: Authorize_def s)
  qed
qed

section \<open>The claims\<close>

subsection \<open>The packet codec\<close>

text \<open>
  C1, as the code has it. The client receives what \<^verbatim>\<open>compile\<close> made of the packet
  that \<^verbatim>\<open>newPacket\<close> built for the body \<open>B\<close> of \<open>N\<close> bytes, in one piece, on an
  open connection. If \<open>B\<close> does not end in a NUL byte and \<open>N + 10\<close> fits the signed
  32-bit size field, the receive path of \<^verbatim>\<open>send\<close> returns the packet itself: its body
  is \<open>B\<close> and its size field is \<open>N + 10\<close>.
\<close>

theorem roundtrip:
  assumes "closes c = 0"
    and "inbound c = (fst (compile (newPacket chal typ B)), None) # r"
    and "B = [] \<or> last B \<noteq> 0"
    and "length B + 10 < 2 ^ 31"
  shows "receive (newPacket chal typ B) c
           = (Return (Some (newPacket chal typ B)) None, c\<lparr>inbound := r\<rparr>)
       \<and> response_Body (fst (receive (newPacket chal typ B) c)) = Some B
       \<and> response_size (fst (receive (newPacket chal typ B) c)) = Some (int (length B) + 10)"
proof -
  have "bodyLen (Header (newPacket chal typ B)) = int (length (Body (newPacket chal typ B))) + 2"
    using newPacket_bodyLen[OF assms(4)] by (simp add: newPacket_def)
  from receive_loopback[OF assms(1,2) this] assms(3)
  have r: "receive (newPacket chal typ B) c
      = (Return (Some (newPacket chal typ B)) None, c\<lparr>inbound := r\<rparr>)"
    by (simp add: TrimRight_padding newPacket_def)
  have "Body (newPacket chal typ B) = B"
    by (simp add: newPacket_def)
  then show ?thesis
    using newPacket_size[OF assms(4)]
    by (simp add: r response_Body_def response_size_def)
qed

text \<open>The round trip of the one-byte body \<^verbatim>\<open>a\<close>.\<close>

theorem roundtrip_witness:
  "closes \<lparr>inbound = [(fst (compile (newPacket 7 exec [97])), None)], wscript = [],
            outbound = [], closes = 0\<rparr> = 0
   \<and> ([97::byte] = [] \<or> last [97::byte] \<noteq> 0)
   \<and> length [97::byte] + 10 < 2 ^ 31
   \<and> response_Body (fst (receive (newPacket 7 exec [97])
        \<lparr>inbound = [(fst (compile (newPacket 7 exec [97])), None)], wscript = [],
         outbound = [], closes = 0\<rparr>)) = Some [97]
   \<and> response_size (fst (receive (newPacket 7 exec [97])
        \<lparr>inbound = [(fst (compile (newPacket 7 exec [97])), None)], wscript = [],
         outbound = [], closes = 0\<rparr>)) = Some 11"
proof -
  let ?c = "\<lparr>inbound = [(fst (compile (newPacket 7 exec [97])), None)], wscript = [],
            outbound = [], closes = 0\<rparr>"
  have h1: "closes ?c = 0" by simp
  have h2: "inbound ?c = (fst (compile (newPacket 7 exec [97])), None) # []" by simp
  have h3: "[97::byte] = [] \<or> last [97::byte] \<noteq> 0" by simp
  have h4: "length [97::byte] + 10 < 2 ^ 31" by simp
  from roundtrip[OF h1 h2 h3 h4]
  have "response_Body (fst (receive (newPacket 7 exec [97]) ?c)) = Some [97]"
    and "response_size (fst (receive (newPacket 7 exec [97]) ?c)) = Some (int (length [97::byte]) + 10)"
    by blast+
  with h1 h3 h4 show ?thesis by simp
qed

text \<open>
  C1 as it is stated, for every body, fails twice. \<^verbatim>\<open>strings.TrimRight\<close> removes
  every trailing NUL byte, those of the body too: the body of one NUL byte comes back
  empty. And the conversion to \<^verbatim>\<open>int32\<close> wraps around: for a body of
  \<open>2^31 - 10\<close> bytes the size field that is decoded is \<open>- 2^31\<close>.
\<close>

theorem roundtrip_counterexample:
  "response_Body (fst (receive (newPacket 7 exec [0])
        \<lparr>inbound = [(fst (compile (newPacket 7 exec [0])), None)], wscript = [],
         outbound = [], closes = 0\<rparr>)) \<noteq> Some [0]
   \<and> response_size (fst (receive (newPacket 7 exec (replicate 2147483638 97))
        \<lparr>inbound = [(fst (compile (newPacket 7 exec (replicate 2147483638 97))), None)],
         wscript = [], outbound = [], closes = 0\<rparr>))
       \<noteq> Some (int (length (replicate 2147483638 (97::byte))) + 10)"
proof
  let ?p = "newPacket 7 exec [0]"
  let ?c = "\<lparr>inbound = [(fst (compile ?p), None)], wscript = [], outbound = [], closes = 0\<rparr>"
  have "bodyLen (Header ?p) = int (length (Body ?p)) + 2"
    using newPacket_bodyLen[of "[0]" 7 exec] by (simp add: newPacket_def)
  from receive_loopback[of ?c ?p "[]", OF _ _ this]
  show "response_Body (fst (receive ?p ?c)) \<noteq> Some [0]"
    by (simp add: response_Body_def newPacket_def TrimRight_def terminationSequence_def)
next
  let ?B = "replicate 2147483638 (97::byte)"
  let ?p = "newPacket 7 exec ?B"
  let ?c = "\<lparr>inbound = [(fst (compile ?p), None)], wscript = [], outbound = [], closes = 0\<rparr>"
  have s: "size_field (Header ?p) = word_of_int 2147483648"
    by (simp add: newPacket_size_field)
  have "bodyLen (Header ?p) = sint (word_of_int 2147483648 - 8 :: int32)"
    by (simp only: bodyLen_def s packetHeaderSize_def)
  then have "bodyLen (Header ?p) = int (length (Body ?p)) + 2"
    by (simp add: newPacket_def)
  from receive_loopback[of ?c ?p "[]", OF _ _ this]
  show "response_size (fst (receive ?p ?c)) \<noteq> Some (int (length ?B) + 10)"
    by (simp add: response_size_def s)
qed

text \<open>
  C7, as the code has it. \<^verbatim>\<open>compile\<close> writes the size, the challenge id and the
  type, four bytes each in little-endian order, then the bytes of the body, then two
  NUL bytes, and returns no error. The size that \<^verbatim>\<open>newPacket\<close> stores is the length
  of the body plus 10 whenever that sum fits the signed 32-bit field.
\<close>

theorem compile_layout:
  "compile p = (little_endian32 (size_field (Header p)) @ little_endian32 (challenge (Header p))
                  @ little_endian32 (headerType (Header p)) @ Body p @ [0, 0], None)
   \<and> (length body + 10 < 2 ^ 31 \<longrightarrow>
        sint (size_field (Header (newPacket chal typ body))) = int (length body) + 10)"
  by (simp add: compile_def PutUint32_little_endian packetPaddingSize_def numeral_2_eq_2
      newPacket_size)

text \<open>The fifteen bytes of the \<^verbatim>\<open>exec\<close> packet with the id 7 and the body \<^verbatim>\<open>a\<close>.\<close>

theorem compile_layout_witness:
  "length [97::byte] + 10 < 2 ^ 31
   \<and> compile (newPacket 7 exec [97]) = ([11, 0, 0, 0, 7, 0, 0, 0, 2, 0, 0, 0, 97, 0, 0], None)
   \<and> sint (size_field (Header (newPacket 7 exec [97]))) = 11"
  using compile_layout[of "newPacket 7 exec [97]" "[97]" 7 exec]
  by (simp add: newPacket_def exec_def little_endian32_def upt_rec
      packetHeaderSize_def packetPaddingSize_def)

text \<open>
  C7 as it is stated fails for a body of \<open>2^31 - 10\<close> bytes: the sum is \<open>2^31\<close>,
  and the \<^verbatim>\<open>int32\<close> that \<^verbatim>\<open>newPacket\<close> stores is \<open>- 2^31\<close>.
\<close>

theorem newPacket_size_counterexample:
  "sint (size_field (Header (newPacket 7 exec (replicate 2147483638 97))))
     \<noteq> int (length (replicate 2147483638 (97::byte))) + 10"
  by (simp add: newPacket_size_field)

subsection \<open>The session\<close>

text \<open>
  C3. On a client whose \<open>authorized\<close> flag is false, \<^verbatim>\<open>Execute\<close> returns a
  \<^verbatim>\<open>nil\<close> response and \<open>ErrUnauthorizedRequest\<close>, and the state after the call is
  the state before it: nothing was written to the connection, nothing was read from
  it, and the random source was not used.
\<close>

theorem Execute_unauthorized:
  "\<not> authorized (client w) \<Longrightarrow>
   Execute command w = (Return None (Some ErrUnauthorizedRequest), w)"
  by (simp add: Execute_def send_def exec_def auth_def)

text \<open>A client that has just been made and connected, and never authorized.\<close>

theorem Execute_unauthorized_witness:
  "\<not> authorized (client \<lparr>rand_Reader = [], client = \<lparr>Host = ''localhost'', Port = 27015,
       authorized = False,
       connection = Some \<lparr>inbound = [], wscript = [], outbound = [], closes = 0\<rparr>\<rparr>\<rparr>)
   \<and> Execute [115, 116, 97, 116, 117, 115]
        \<lparr>rand_Reader = [], client = \<lparr>Host = ''localhost'', Port = 27015,
          authorized = False,
          connection = Some \<lparr>inbound = [], wscript = [], outbound = [], closes = 0\<rparr>\<rparr>\<rparr>
     = (Return None (Some ErrUnauthorizedRequest),
        \<lparr>rand_Reader = [], client = \<lparr>Host = ''localhost'', Port = 27015,
          authorized = False,
          connection = Some \<lparr>inbound = [], wscript = [], outbound = [], closes = 0\<rparr>\<rparr>\<rparr>)"
  using Execute_unauthorized[of "\<lparr>rand_Reader = [], client = \<lparr>Host = ''localhost'',
       Port = 27015, authorized = False,
       connection = Some \<lparr>inbound = [], wscript = [], outbound = [], closes = 0\<rparr>\<rparr>\<rparr>"
      "[115, 116, 97, 116, 117, 115]"]
  by simp

text \<open>
  C5. The flag is false on a new client. \<^verbatim>\<open>Connect\<close> and \<^verbatim>\<open>Execute\<close> leave it as
  it is. After \<^verbatim>\<open>Authorize\<close> it is true exactly when it was true before or the
  exchange returned a response whose header, the one that was checked, has the type
  \<open>authResponse\<close>: nothing sets it back to false. When the exchange returns a response
  of another type, \<^verbatim>\<open>Authorize\<close> returns \<open>ErrFailedAuthorization\<close> and the flag is
  unchanged, so that on a client that was not authorized the next \<^verbatim>\<open>Execute\<close>
  returns \<open>ErrUnauthorizedRequest\<close>.
\<close>

theorem authorized_flag:
  "\<not> authorized (fst (NewClient host port))
   \<and> authorized (fst (Connect dial (client w))) = authorized (client w)
   \<and> authorized (client (snd (Execute command w))) = authorized (client w)
   \<and> (authorized (client (snd (Authorize password w))) \<longleftrightarrow>
        authorized (client w)
        \<or> (\<exists>p. fst (send auth password w) = Return (Some p) None
               \<and> headerType (Header p) = authResponse))
   \<and> (\<forall>p. fst (send auth password w) = Return (Some p) None
          \<and> headerType (Header p) \<noteq> authResponse \<longrightarrow>
          fst (Authorize password w) = Return None (Some ErrFailedAuthorization)
          \<and> authorized (client (snd (Authorize password w))) = authorized (client w)
          \<and> (\<not> authorized (client w) \<longrightarrow>
                fst (Execute command (snd (Authorize password w)))
                  = Return None (Some ErrUnauthorizedRequest)))"
proof (intro conjI)
  show "\<not> authorized (fst (NewClient host port))"
    by (simp add: NewClient_def)
  show "authorized (fst (Connect dial (client w))) = authorized (client w)"
    by (simp add: Connect_def split: sum.splits)
  show "authorized (client (snd (Execute command w))) = authorized (client w)"
    by (simp add: Execute_def send_authorized)
  obtain res w' where s: "send auth password w = (res, w')"
    by (cases "send auth password w")
  have a: "authorized (client w') = authorized (client w)"
    using send_authorized[of auth password w] s by simp
  show "authorized (client (snd (Authorize password w))) \<longleftrightarrow>
        authorized (client w)
        \<or> (\<exists>p. fst (send auth password w) = Return (Some p) None
               \<and> headerType (Header p) = authResponse)"
    using a by (auto simp: Authorize_def s split: result.splits option.splits)
  show "\<forall>p. fst (send auth password w) = Return (Some p) None
          \<and> headerType (Header p) \<noteq> authResponse \<longrightarrow>
          fst (Authorize password w) = Return None (Some ErrFailedAuthorization)
          \<and> authorized (client (snd (Authorize password w))) = authorized (client w)
          \<and> (\<not> authorized (client w) \<longrightarrow>
                fst (Execute command (snd (Authorize password w)))
                  = Return None (Some ErrUnauthorizedRequest))"
  proof (intro allI impI, elim conjE)
    fix p
    assume r: "fst (send auth password w) = Return (Some p) None"
      and t: "headerType (Header p) \<noteq> authResponse"
    from r s have res: "res = Return (Some p) None" by simp
    have A: "Authorize password w = (Return None (Some ErrFailedAuthorization), w')"
      using t by (simp add: Authorize_def s res)
    have "exec \<noteq> auth" by (simp add: exec_def auth_def)
    then have "\<not> authorized (client w) \<longrightarrow>
        fst (Execute command w') = Return None (Some ErrUnauthorizedRequest)"
      using a by (simp add: Execute_def send_unauthorized)
    then show "fst (Authorize password w) = Return None (Some ErrFailedAuthorization)
          \<and> authorized (client (snd (Authorize password w))) = authorized (client w)
          \<and> (\<not> authorized (client w) \<longrightarrow>
                fst (Execute command (snd (Authorize password w)))
                  = Return None (Some ErrUnauthorizedRequest))"
      using a by (simp add: A)
  qed
qed

text \<open>
  An \<^verbatim>\<open>Authorize\<close> that the peer answers with a packet of type 5, and the
  \<^verbatim>\<open>Execute\<close> that follows it.
\<close>

theorem authorized_flag_witness:
  "fst (send auth [112, 119]
      \<lparr>rand_Reader = [([1, 0, 0, 0], None)],
       client = \<lparr>Host = ''localhost'', Port = 27015, authorized = False,
         connection = Some \<lparr>inbound = [([10, 0, 0, 0, 1, 0, 0, 0, 5, 0, 0, 0, 0, 0], None)],
                            wscript = [], outbound = [], closes = 0\<rparr>\<rparr>\<rparr>)
     = Return (Some \<lparr>Header = \<lparr>size_field = 10, challenge = 1, headerType = 5\<rparr>,
                     Body = []\<rparr>) None
   \<and> fst (Authorize [112, 119]
      \<lparr>rand_Reader = [([1, 0, 0, 0], None)],
       client = \<lparr>Host = ''localhost'', Port = 27015, authorized = False,
         connection = Some \<lparr>inbound = [([10, 0, 0, 0, 1, 0, 0, 0, 5, 0, 0, 0, 0, 0], None)],
                            wscript = [], outbound = [], closes = 0\<rparr>\<rparr>\<rparr>)
     = Return None (Some ErrFailedAuthorization)
   \<and> \<not> authorized (client (snd (Authorize [112, 119]
      \<lparr>rand_Reader = [([1, 0, 0, 0], None)],
       client = \<lparr>Host = ''localhost'', Port = 27015, authorized = False,
         connection = Some \<lparr>inbound = [([10, 0, 0, 0, 1, 0, 0, 0, 5, 0, 0, 0, 0, 0], None)],
                            wscript = [], outbound = [], closes = 0\<rparr>\<rparr>\<rparr>)))
   \<and> fst (Execute [115] (snd (Authorize [112, 119]
      \<lparr>rand_Reader = [([1, 0, 0, 0], None)],
       client = \<lparr>Host = ''localhost'', Port = 27015, authorized = False,
         connection = Some \<lparr>inbound = [([10, 0, 0, 0, 1, 0, 0, 0, 5, 0, 0, 0, 0, 0], None)],
                            wscript = [], outbound = [], closes = 0\<rparr>\<rparr>\<rparr>)))
     = Return None (Some ErrUnauthorizedRequest)"
proof -
  let ?w = "\<lparr>rand_Reader = [([1, 0, 0, 0], None)],
       client = \<lparr>Host = ''localhost'', Port = 27015, authorized = False,
         connection = Some \<lparr>inbound = [([10, 0, 0, 0, 1, 0, 0, 0, 5, 0, 0, 0, 0, 0], None)],
                            wscript = [], outbound = [], closes = 0\<rparr>\<rparr>\<rparr>"
  let ?p = "\<lparr>Header = \<lparr>size_field = 10, challenge = 1, headerType = 5\<rparr>, Body = []\<rparr>"
  have s: "fst (send auth [112, 119] ?w) = Return (Some ?p) None"
    by (simp add: run_defs)
  have t: "headerType (Header ?p) \<noteq> authResponse"
    by (simp add: authResponse_def)
  have u: "\<not> authorized (client ?w)" by simp
  from authorized_flag[where w = ?w and password = "[112, 119]" and command = "[115]"]
  have "fst (send auth [112, 119] ?w) = Return (Some ?p) None
          \<and> headerType (Header ?p) \<noteq> authResponse \<longrightarrow>
          fst (Authorize [112, 119] ?w) = Return None (Some ErrFailedAuthorization)
          \<and> authorized (client (snd (Authorize [112, 119] ?w))) = authorized (client ?w)
          \<and> (\<not> authorized (client ?w) \<longrightarrow>
                fst (Execute [115] (snd (Authorize [112, 119] ?w)))
                  = Return None (Some ErrUnauthorizedRequest))"
    by blast
  with s t u show ?thesis by simp
qed

text \<open>
  C2, for the \<^verbatim>\<open>Disconnect\<close> of the specification. After a \<^verbatim>\<open>Connect\<close> that
  succeeded with a connection that was never closed, and whatever \<^verbatim>\<open>Authorize\<close> and
  \<^verbatim>\<open>Execute\<close> calls follow and however they end (a response, an error, a panic),
  the connection has not been closed when \<^verbatim>\<open>Disconnect\<close> runs, and has been closed
  exactly once after it.
\<close>

theorem Disconnect_closes_once:
  assumes "closes c = 0"
  shows "Connect (Inr c) this = (this\<lparr>connection := Some c\<rparr>, None)
    \<and> close_count (client (run calls \<lparr>rand_Reader = rnd, client = this\<lparr>connection := Some c\<rparr>\<rparr>)) = Some 0
    \<and> close_count (Disconnect (client (run calls
          \<lparr>rand_Reader = rnd, client = this\<lparr>connection := Some c\<rparr>\<rparr>))) = Some 1"
proof -
  let ?w = "\<lparr>rand_Reader = rnd, client = this\<lparr>connection := Some c\<rparr>\<rparr>"
  have "close_count (client (run calls ?w)) = Some 0"
    using assms by (simp add: run_close_count) (simp add: close_count_def)
  then show ?thesis
    by (auto simp: Connect_def Disconnect_def close_count_def split: option.splits)
qed

text \<open>
  An \<^verbatim>\<open>Authorize\<close> that fails (the peer has closed the stream) and an \<^verbatim>\<open>Execute\<close>
  that is refused, then \<^verbatim>\<open>Disconnect\<close>.
\<close>

theorem Disconnect_closes_once_witness:
  "closes \<lparr>inbound = [], wscript = [], outbound = [], closes = 0\<rparr> = 0
   \<and> close_count (Disconnect (client (run [Call_Authorize [112, 119], Call_Execute [115]]
        \<lparr>rand_Reader = [],
         client = \<lparr>Host = ''localhost'', Port = 27015, authorized = False, connection = None\<rparr>
           \<lparr>connection := Some \<lparr>inbound = [], wscript = [], outbound = [], closes = 0\<rparr>\<rparr>\<rparr>)))
     = Some 1"
proof -
  have h: "closes \<lparr>inbound = [], wscript = [], outbound = [], closes = 0\<rparr> = 0"
    by simp
  show ?thesis
    using Disconnect_closes_once[OF h] h by blast
qed

subsection \<open>The exchange\<close>

text \<open>
  The second-header branch, for a first packet whose \<open>size - 8\<close> is a length, that
  is, not negative. After a first header has been decoded, the receive path of
  \<^verbatim>\<open>send\<close> takes that branch exactly when the request is an \<^verbatim>\<open>auth\<close> and the
  header has the type \<open>responseValue\<close>: it makes one \<^verbatim>\<open>Read\<close> into a buffer of
  \<open>size - 8\<close> bytes, drops what it returns, decodes one more header and goes on with
  that one. In every other case, and so for every \<^verbatim>\<open>exec\<close> request whatever the
  type of the first header, it goes on with the first header.
\<close>

theorem auth_quirk:
  assumes "readHeader c = (Inr hdr, c1)"
  shows "(typ = auth \<and> headerType hdr = responseValue \<and> 0 \<le> bodyLen hdr \<longrightarrow>
            receive (newPacket chal typ command) c =
              (case readHeader (snd (conn_Read (nat (bodyLen hdr)) c1)) of
                 (Inl e, c3) \<Rightarrow> (Return None (Some e), c3)
               | (Inr hdr2, c3) \<Rightarrow> readBody (newPacket chal typ command) hdr2 c3))
       \<and> (\<not> (typ = auth \<and> headerType hdr = responseValue) \<longrightarrow>
            receive (newPacket chal typ command) c = readBody (newPacket chal typ command) hdr c1)
       \<and> receive (newPacket chal exec command) c = readBody (newPacket chal exec command) hdr c1"
  using assms
  by (auto simp: receive_def awaitHeader_def newPacket_def exec_def auth_def
      split: prod.splits sum.splits)

text \<open>
  The peer sends an empty packet of type 0 and then the \<^verbatim>\<open>auth\<close> response. The
  \<^verbatim>\<open>auth\<close> request returns the second packet; an \<^verbatim>\<open>exec\<close> request returns the
  first and leaves the second unread.
\<close>

theorem auth_quirk_witness:
  "readHeader \<lparr>inbound = [([10, 0, 0, 0, 1, 0, 0, 0, 0, 0, 0, 0, 0, 0,
                              10, 0, 0, 0, 1, 0, 0, 0, 2, 0, 0, 0, 0, 0], None)],
               wscript = [], outbound = [], closes = 0\<rparr>
     = (Inr \<lparr>size_field = 10, challenge = 1, headerType = 0\<rparr>,
        \<lparr>inbound = [([0, 0, 10, 0, 0, 0, 1, 0, 0, 0, 2, 0, 0, 0, 0, 0], None)],
         wscript = [], outbound = [], closes = 0\<rparr>)
   \<and> receive (newPacket 1 auth [112, 119])
         \<lparr>inbound = [([10, 0, 0, 0, 1, 0, 0, 0, 0, 0, 0, 0, 0, 0,
                        10, 0, 0, 0, 1, 0, 0, 0, 2, 0, 0, 0, 0, 0], None)],
          wscript = [], outbound = [], closes = 0\<rparr>
     = (Return (Some \<lparr>Header = \<lparr>size_field = 10, challenge = 1, headerType = 2\<rparr>,
                      Body = []\<rparr>) None,
        \<lparr>inbound = [], wscript = [], outbound = [], closes = 0\<rparr>)
   \<and> receive (newPacket 1 exec [115])
         \<lparr>inbound = [([10, 0, 0, 0, 1, 0, 0, 0, 0, 0, 0, 0, 0, 0,
                        10, 0, 0, 0, 1, 0, 0, 0, 2, 0, 0, 0, 0, 0], None)],
          wscript = [], outbound = [], closes = 0\<rparr>
     = (Return (Some \<lparr>Header = \<lparr>size_field = 10, challenge = 1, headerType = 0\<rparr>,
                      Body = []\<rparr>) None,
        \<lparr>inbound = [([10, 0, 0, 0, 1, 0, 0, 0, 2, 0, 0, 0, 0, 0], None)],
         wscript = [], outbound = [], closes = 0\<rparr>)"
proof -
  let ?c = "\<lparr>inbound = [([10, 0, 0, 0, 1, 0, 0, 0, 0, 0, 0, 0, 0, 0,
                              10, 0, 0, 0, 1, 0, 0, 0, 2, 0, 0, 0, 0, 0], None)],
               wscript = [], outbound = [], closes = 0\<rparr>"
  let ?c1 = "\<lparr>inbound = [([0, 0, 10, 0, 0, 0, 1, 0, 0, 0, 2, 0, 0, 0, 0, 0], None)],
         wscript = [], outbound = [], closes = 0\<rparr>"
  let ?hdr = "\<lparr>size_field = 10, challenge = 1, headerType = 0\<rparr>"
  have h: "readHeader ?c = (Inr ?hdr, ?c1)"
    by (simp add: run_defs)
  have q: "auth = auth \<and> headerType ?hdr = responseValue \<and> 0 \<le> bodyLen ?hdr"
    by (simp add: run_defs)
  have a: "receive (newPacket 1 auth [112, 119]) ?c =
              (case readHeader (snd (conn_Read (nat (bodyLen ?hdr)) ?c1)) of
                 (Inl e, c3) \<Rightarrow> (Return None (Some e), c3)
               | (Inr hdr2, c3) \<Rightarrow> readBody (newPacket 1 auth [112, 119]) hdr2 c3)"
    using auth_quirk[OF h, of auth 1 "[112, 119]"] q
    by blast
  have e: "receive (newPacket 1 exec [115]) ?c = readBody (newPacket 1 exec [115]) ?hdr ?c1"
    using auth_quirk[OF h, of _ 1 "[115]"] by blast
  show ?thesis
    by (simp add: h a e) (simp add: run_defs)
qed

text \<open>
  C4 does not hold of the code. The request is an \<^verbatim>\<open>auth\<close> with the challenge 1,
  and the peer answers with a first header of type 0 whose size field is 7, followed
  by the \<^verbatim>\<open>auth\<close> response. The branch is taken, but
  \<^verbatim>\<open>make([]byte, header.size-packetHeaderSize)\<close> is called with the length \<open>- 1\<close>
  and panics: nothing is discarded, no further header is decoded, and the response
  that follows stays unread.
\<close>

theorem Authorize_panics_in_discard:
  "Authorize [112, 119]
     \<lparr>rand_Reader = [([1, 0, 0, 0], None)],
      client = \<lparr>Host = ''localhost'', Port = 27015, authorized = False,
        connection = Some \<lparr>inbound = [([7, 0, 0, 0, 1, 0, 0, 0, 0, 0, 0, 0], None),
                                      ([10, 0, 0, 0, 1, 0, 0, 0, 2, 0, 0, 0, 0, 0], None)],
                           wscript = [], outbound = [], closes = 0\<rparr>\<rparr>\<rparr>
   = (Panic,
      \<lparr>rand_Reader = [],
       client = \<lparr>Host = ''localhost'', Port = 27015, authorized = False,
         connection = Some \<lparr>inbound = [([10, 0, 0, 0, 1, 0, 0, 0, 2, 0, 0, 0, 0, 0], None)],
                            wscript = [],
                            outbound = [[12, 0, 0, 0, 1, 0, 0, 0, 3, 0, 0, 0, 112, 119, 0, 0]],
                            closes = 0\<rparr>\<rparr>\<rparr>)"
  by (simp add: Authorize_def run_defs)

text \<open>
  C6. When the request has been written and the header that is checked (the first, or
  the second after the \<^verbatim>\<open>auth\<close> branch) has an id other than the challenge of the
  request, \<^verbatim>\<open>send\<close> returns a \<^verbatim>\<open>nil\<close> response and \<open>ErrInvalidChallenge\<close>, and
  the connection is as it was when that header had been decoded: no body was read.
\<close>

theorem invalid_challenge:
  assumes "typ = auth \<or> authorized (client w)"
    and "newChallenge (rand_Reader w) = (chal, rnd')"
    and "connection (client w) = Some c"
    and "conn_Write (fst (compile (newPacket chal typ command))) c
           = ((length (fst (compile (newPacket chal typ command))), None), c1)"
    and "awaitHeader (newPacket chal typ command) c1 = (Inr hdr, c2)"
    and "challenge hdr \<noteq> chal"
  shows "send typ command w =
     (Return None (Some ErrInvalidChallenge), set_connection (w\<lparr>rand_Reader := rnd'\<rparr>) c2)"
  using assms(5,6)
  by (simp add: send_after_write[OF assms(1-4)] receive_def readBody_def newPacket_def)

text \<open>
  The peer answers the challenge 1 with the id 9: the four bytes after the header stay
  unread.
\<close>

theorem invalid_challenge_witness:
  "challenge \<lparr>size_field = 12, challenge = 9, headerType = 0\<rparr> \<noteq> (1::int32)
   \<and> send exec [115]
       \<lparr>rand_Reader = [([1, 0, 0, 0], None)],
        client = \<lparr>Host = ''localhost'', Port = 27015, authorized = True,
          connection = Some \<lparr>inbound = [([12, 0, 0, 0, 9, 0, 0, 0, 0, 0, 0, 0, 104, 105, 0, 0], None)],
                             wscript = [], outbound = [], closes = 0\<rparr>\<rparr>\<rparr>
     = (Return None (Some ErrInvalidChallenge),
        \<lparr>rand_Reader = [],
         client = \<lparr>Host = ''localhost'', Port = 27015, authorized = True,
           connection = Some \<lparr>inbound = [([104, 105, 0, 0], None)], wscript = [],
                              outbound = [[11, 0, 0, 0, 1, 0, 0, 0, 2, 0, 0, 0, 115, 0, 0]],
                              closes = 0\<rparr>\<rparr>\<rparr>)"
proof -
  let ?c = "\<lparr>inbound = [([12, 0, 0, 0, 9, 0, 0, 0, 0, 0, 0, 0, 104, 105, 0, 0], None)],
            wscript = [], outbound = [], closes = 0\<rparr>"
  let ?w = "\<lparr>rand_Reader = [([1, 0, 0, 0], None)],
        client = \<lparr>Host = ''localhost'', Port = 27015, authorized = True,
          connection = Some ?c\<rparr>\<rparr>"
  let ?c1 = "\<lparr>inbound = [([12, 0, 0, 0, 9, 0, 0, 0, 0, 0, 0, 0, 104, 105, 0, 0], None)],
            wscript = [], outbound = [[11, 0, 0, 0, 1, 0, 0, 0, 2, 0, 0, 0, 115, 0, 0]],
            closes = 0\<rparr>"
  let ?c2 = "\<lparr>inbound = [([104, 105, 0, 0], None)],
            wscript = [], outbound = [[11, 0, 0, 0, 1, 0, 0, 0, 2, 0, 0, 0, 115, 0, 0]],
            closes = 0\<rparr>"
  let ?hdr = "\<lparr>size_field = 12, challenge = 9, headerType = 0\<rparr>"
  have h1: "exec = auth \<or> authorized (client ?w)" by simp
  have h2: "newChallenge (rand_Reader ?w) = (1, [])" by (simp add: run_defs)
  have h3: "connection (client ?w) = Some ?c" by simp
  have h4: "conn_Write (fst (compile (newPacket 1 exec [115]))) ?c
      = ((length (fst (compile (newPacket 1 exec [115]))), None), ?c1)"
    by (simp add: run_defs)
  have h5: "awaitHeader (newPacket 1 exec [115]) ?c1 = (Inr ?hdr, ?c2)"
    by (simp add: run_defs)
  have h6: "challenge ?hdr \<noteq> (1::int32)" by simp
  from invalid_challenge[OF h1 h2 h3 h4 h5 h6] h6 show ?thesis
    by (simp add: set_connection_def)
qed

text \<open>
  C9. When the \<^verbatim>\<open>binary.Read\<close> from \<^verbatim>\<open>rand.Reader\<close> fails, \<^verbatim>\<open>send\<close> is the
  exchange of the packet with the challenge 0: the error of the read appears nowhere
  in the result, and on an open connection that takes the write the compiled packet
  with the id 0 is what is written.
\<close>

theorem challenge_read_unchecked:
  assumes "binary_Read (rand_Reader w) = (Inl e, rnd')"
    and "typ = auth \<or> authorized (client w)"
  shows "send typ command w = exchange (newPacket 0 typ command) (w\<lparr>rand_Reader := rnd'\<rparr>)
       \<and> (\<forall>c. connection (client w) = Some c \<and> closes c = 0 \<and> wscript c = [] \<longrightarrow>
             sent (snd (send typ command w))
               = outbound c @ [fst (compile (newPacket 0 typ command))])"
proof
  show s: "send typ command w = exchange (newPacket 0 typ command) (w\<lparr>rand_Reader := rnd'\<rparr>)"
    using assms by (auto simp: send_def newChallenge_def)
  show "\<forall>c. connection (client w) = Some c \<and> closes c = 0 \<and> wscript c = [] \<longrightarrow>
             sent (snd (send typ command w))
               = outbound c @ [fst (compile (newPacket 0 typ command))]"
  proof (intro allI impI, elim conjE)
    fix c
    assume c: "connection (client w) = Some c" "closes c = 0" "wscript c = []"
    let ?p = "newPacket 0 typ command"
    let ?c1 = "c\<lparr>outbound := outbound c @ [fst (compile ?p)]\<rparr>"
    have w: "conn_Write (fst (compile ?p)) c = ((length (fst (compile ?p)), None), ?c1)"
      using c by (simp add: conn_Write_def)
    have "outbound (snd (receive ?p ?c1)) = outbound ?c1"
      using receive_frame[of ?c1 ?p] by (simp add: reads_only_def)
    then show "sent (snd (send typ command w)) = outbound c @ [fst (compile ?p)]"
      using c(1) w
      by (auto simp: s exchange_def sent_def set_connection_def compile_def split: prod.splits)
  qed
qed

text \<open>
  The random source is at its end; the \<^verbatim>\<open>auth\<close> packet goes out with the id 0, and
  the response that mirrors 0 is accepted.
\<close>

theorem challenge_read_unchecked_witness:
  "binary_Read [] = (Inl EOF, [])
   \<and> send auth [112, 119]
       \<lparr>rand_Reader = [],
        client = \<lparr>Host = ''localhost'', Port = 27015, authorized = False,
          connection = Some \<lparr>inbound = [([10, 0, 0, 0, 0, 0, 0, 0, 2, 0, 0, 0, 0, 0], None)],
                             wscript = [], outbound = [], closes = 0\<rparr>\<rparr>\<rparr>
     = (Return (Some \<lparr>Header = \<lparr>size_field = 10, challenge = 0, headerType = 2\<rparr>,
                      Body = []\<rparr>) None,
        \<lparr>rand_Reader = [],
         client = \<lparr>Host = ''localhost'', Port = 27015, authorized = False,
           connection = Some \<lparr>inbound = [], wscript = [],
                              outbound = [[12, 0, 0, 0, 0, 0, 0, 0, 3, 0, 0, 0, 112, 119, 0, 0]],
                              closes = 0\<rparr>\<rparr>\<rparr>)"
proof -
  let ?c = "\<lparr>inbound = [([10, 0, 0, 0, 0, 0, 0, 0, 2, 0, 0, 0, 0, 0], None)],
                             wscript = [], outbound = [], closes = 0\<rparr>"
  let ?w = "\<lparr>rand_Reader = [],
        client = \<lparr>Host = ''localhost'', Port = 27015, authorized = False,
          connection = Some ?c\<rparr>\<rparr>"
  have h1: "binary_Read (rand_Reader ?w) = (Inl EOF, [])" by (simp add: binary_Read_Nil)
  have h2: "auth = auth \<or> authorized (client ?w)" by simp
  from challenge_read_unchecked[OF h1 h2]
  have "send auth [112, 119] ?w = exchange (newPacket 0 auth [112, 119]) (?w\<lparr>rand_Reader := []\<rparr>)"
    by blast
  then show ?thesis
    by (simp add: binary_Read_Nil) (simp add: run_defs)
qed

text \<open>
  C10. In the \<^verbatim>\<open>auth\<close> branch, when the \<^verbatim>\<open>Read\<close> that drops the first packet's
  body returns an error or fewer bytes than the buffer holds, \<^verbatim>\<open>send\<close> goes on as
  after any other outcome of that \<^verbatim>\<open>Read\<close>: it decodes the next header from what
  the connection has left, and returns what that header and its body give.
\<close>

theorem discard_unchecked:
  assumes "readHeader c = (Inr hdr, c1)"
    and "headerType (Header packet) = auth"
    and "headerType hdr = responseValue"
    and "0 \<le> bodyLen hdr"
    and "conn_Read (nat (bodyLen hdr)) c1 = ((bs, err), c2)"
    and "err \<noteq> None \<or> length bs \<noteq> nat (bodyLen hdr)"
  shows "receive packet c =
     (case readHeader c2 of
        (Inl e, c3) \<Rightarrow> (Return None (Some e), c3)
      | (Inr hdr2, c3) \<Rightarrow> readBody packet hdr2 c3)"
  using assms(1-5)
  by (auto simp: receive_def awaitHeader_def split: prod.splits sum.splits)

text \<open>
  The \<^verbatim>\<open>Read\<close> that drops the body returns no byte and a transport error; the
  \<^verbatim>\<open>auth\<close> response that follows is returned all the same.
\<close>

theorem discard_unchecked_witness:
  "conn_Read 2 \<lparr>inbound = [([], Some (ErrNet 1)),
                            ([10, 0, 0, 0, 1, 0, 0, 0, 2, 0, 0, 0, 0, 0], None)],
                wscript = [], outbound = [], closes = 0\<rparr>
     = (([], Some (ErrNet 1)),
        \<lparr>inbound = [([10, 0, 0, 0, 1, 0, 0, 0, 2, 0, 0, 0, 0, 0], None)],
         wscript = [], outbound = [], closes = 0\<rparr>)
   \<and> receive (newPacket 1 auth [112, 119])
         \<lparr>inbound = [([10, 0, 0, 0, 1, 0, 0, 0, 0, 0, 0, 0], None), ([], Some (ErrNet 1)),
                      ([10, 0, 0, 0, 1, 0, 0, 0, 2, 0, 0, 0, 0, 0], None)],
          wscript = [], outbound = [], closes = 0\<rparr>
     = (Return (Some \<lparr>Header = \<lparr>size_field = 10, challenge = 1, headerType = 2\<rparr>,
                      Body = []\<rparr>) None,
        \<lparr>inbound = [], wscript = [], outbound = [], closes = 0\<rparr>)"
proof -
  let ?c = "\<lparr>inbound = [([10, 0, 0, 0, 1, 0, 0, 0, 0, 0, 0, 0], None), ([], Some (ErrNet 1)),
                      ([10, 0, 0, 0, 1, 0, 0, 0, 2, 0, 0, 0, 0, 0], None)],
          wscript = [], outbound = [], closes = 0\<rparr>"
  let ?c1 = "\<lparr>inbound = [([], Some (ErrNet 1)),
                            ([10, 0, 0, 0, 1, 0, 0, 0, 2, 0, 0, 0, 0, 0], None)],
                wscript = [], outbound = [], closes = 0\<rparr>"
  let ?c2 = "\<lparr>inbound = [([10, 0, 0, 0, 1, 0, 0, 0, 2, 0, 0, 0, 0, 0], None)],
         wscript = [], outbound = [], closes = 0\<rparr>"
  let ?hdr = "\<lparr>size_field = 10, challenge = 1, headerType = 0\<rparr>"
  have h1: "readHeader ?c = (Inr ?hdr, ?c1)" by (simp add: run_defs)
  have h2: "headerType (Header (newPacket 1 auth [112, 119])) = auth" by (simp add: newPacket_def)
  have h3: "headerType ?hdr = responseValue" by (simp add: responseValue_def)
  have h4: "0 \<le> bodyLen ?hdr" by (simp add: run_defs)
  have h5: "conn_Read (nat (bodyLen ?hdr)) ?c1 = (([], Some (ErrNet 1)), ?c2)"
    by (simp add: run_defs)
  have h6: "Some (ErrNet 1) \<noteq> None \<or> length ([]::byte list) \<noteq> nat (bodyLen ?hdr)" by simp
  have n: "nat (bodyLen ?hdr) = 2" by (simp add: run_defs)
  from discard_unchecked[OF h1 h2 h3 h4 h5 h6] h5 show ?thesis
    by (simp add: n) (simp add: run_defs)
qed

text \<open>
  C8 does not hold of the code. An authorized client sends \<^verbatim>\<open>status\<close> with the
  challenge 1, and the peer answers with a header whose size field is 0:
  \<^verbatim>\<open>make([]byte, header.size-packetHeaderSize)\<close> is called with the length \<open>- 8\<close>,
  and the call panics instead of returning an error.
\<close>

theorem Execute_panics:
  "fst (Execute [115, 116, 97, 116, 117, 115]
    \<lparr>rand_Reader = [([1, 0, 0, 0], None)],
     client = \<lparr>Host = ''localhost'', Port = 27015, authorized = True,
       connection = Some \<lparr>inbound = [([0, 0, 0, 0, 1, 0, 0, 0, 0, 0, 0, 0], None)],
                          wscript = [], outbound = [], closes = 0\<rparr>\<rparr>\<rparr>) = Panic"
  by (simp add: Execute_def run_defs)

end
